theory Spec2Isabelle
  imports Main
begin

section \<open>Error reporting of pyvoa: the module \<open>pyvoa/error.py\<close>\<close>

text \<open>
  The module is kept in the repository as its compiled code object
  (\<open>src/unnamed/part_000\<close>, CPython 3.12).  The definitions below follow that code
  object instruction by instruction: the constants, names and local variables are the
  ones of its tables.  A Python \<open>str\<close> is modelled as a \<open>string\<close> whose characters
  stand for the code points \<open>U+0000\<close> to \<open>U+00FF\<close>, one \<open>char\<close> per code point.

  The stored file reads every carriage return as a line feed, so an operand that reads
  10 is 10 or 13.  It is taken as the one that makes the code well formed: the local
  variable 13 (\<open>ansi_start\<close>) is the one stored and written, the constant 13
  (\<open>'red'\<close>) is the key of the background default, and the name 10 (\<open>CoaError\<close>)
  is the first base of the seven subclasses, as the module's docstring asks ("All Coa
  exceptions should derive from the main CoaError class").
\<close>

subsection \<open>Exception classes and outcomes\<close>

text \<open>
  The classes the module defines, and the built-in exception classes it names or can
  meet.  A Python exception class is a value; raising is a value of \<open>outcome\<close>.
\<close>

datatype pyclass =
    BaseException | SystemExit | Exception
  | LookupError | IndexError | KeyError | TypeError | ValueError
  | ArithmeticError | OverflowError | OSError | ConnectionError
  | CoaInfo | CoaDBInfo | CoaWarning | CoaError
  | CoaNoData | CoaWhereError | CoaTypeError | CoaLookupError
  | CoaNotManagedError | CoaDbError | CoaConnectionError

text \<open>
  What a call does: it returns a value to its caller, it raises an exception of a class,
  or it runs \<open>sys.exit(code)\<close>.  \<open>sys.exit\<close> raises \<open>SystemExit\<close> carrying the
  code; the interpreter ends the process with that code when no handler for
  \<open>SystemExit\<close> or \<open>BaseException\<close> takes it.
\<close>

datatype 'a outcome = Returned 'a | Raised pyclass | Exited int

text \<open>
  The part of the world the module touches: what \<open>os.popen('stty size', 'r').read()\<close>
  gives (\<open>None\<close> when the call itself raises), and the strings written to
  \<open>sys.stdout\<close> so far, one element per \<open>write\<close> call.  The terminal is taken
  to give the same answer throughout one call of the module, and a write to
  \<open>sys.stdout\<close> is taken to succeed.
\<close>

record world =
  tty :: "string option"
  stdout :: "string list"

definition then_do :: "'a outcome \<times> world \<Rightarrow> (world \<Rightarrow> 'b outcome \<times> world) \<Rightarrow> 'b outcome \<times> world" where
  "then_do r k =
     (case r of
        (Returned _, w) \<Rightarrow> k w
      | (Raised e, w) \<Rightarrow> (Raised e, w)
      | (Exited n, w) \<Rightarrow> (Exited n, w))"

subsection \<open>The string and integer primitives of Python the module calls\<close>

definition ESC :: char where
  "ESC = CHR 0x1B"

definition NL :: char where
  "NL = CHR 0x0A"

definition SP :: char where
  "SP = CHR 0x20"

definition lower_char :: "char \<Rightarrow> char" where
  \<comment> \<open>\<open>str.lower\<close> on one code point below \<open>U+0100\<close>: \<open>A\<close> to \<open>Z\<close>, and the
      Latin-1 capitals \<open>U+00C0\<close> to \<open>U+00DE\<close> but the multiplication sign.\<close>
  "lower_char c =
     (let n = (of_char c :: nat)
      in if (65 \<le> n \<and> n \<le> 90) \<or> (192 \<le> n \<and> n \<le> 222 \<and> n \<noteq> 215)
         then char_of (n + 32) else c)"

definition py_lower :: "string \<Rightarrow> string" where
  "py_lower s = map lower_char s"

definition py_isspace :: "char \<Rightarrow> bool" where
  \<comment> \<open>the white space of \<open>str.split()\<close> and \<open>int()\<close> below \<open>U+0100\<close>\<close>
  "py_isspace c =
     (let n = (of_char c :: nat)
      in (9 \<le> n \<and> n \<le> 13) \<or> (28 \<le> n \<and> n \<le> 32) \<or> n = 133 \<or> n = 160)"

fun split_from :: "string \<Rightarrow> string \<Rightarrow> string list" where
  \<comment> \<open>the first argument is the token being read, reversed\<close>
  "split_from cur [] = (if cur = [] then [] else [rev cur])"
| "split_from cur (c # cs) =
     (if py_isspace c
      then (if cur = [] then split_from [] cs else rev cur # split_from [] cs)
      else split_from (c # cur) cs)"

definition py_split :: "string \<Rightarrow> string list" where
  \<comment> \<open>\<open>s.split()\<close>: the maximal runs of characters that are not white space\<close>
  "py_split s = split_from [] s"

definition is_digit :: "char \<Rightarrow> bool" where
  "is_digit c = (48 \<le> (of_char c :: nat) \<and> (of_char c :: nat) \<le> 57)"

definition digit_val :: "char \<Rightarrow> int" where
  "digit_val c = int (of_char c) - 48"

fun int_body :: "string \<Rightarrow> bool" where
  \<comment> \<open>digits, with single underscores allowed between two digits\<close>
  "int_body [] = False"
| "int_body [c] = is_digit c"
| "int_body (c # d # cs) =
     (is_digit c \<and> (if d = CHR ''_'' then int_body cs else int_body (d # cs)))"

definition py_strip :: "string \<Rightarrow> string" where
  "py_strip s = rev (dropWhile py_isspace (rev (dropWhile py_isspace s)))"

definition digits_value :: "string \<Rightarrow> int" where
  "digits_value ds = foldl (\<lambda>a c. 10 * a + digit_val c) 0 ds"

definition py_int :: "string \<Rightarrow> int option" where
  \<comment> \<open>\<open>int(s)\<close> in base ten; \<open>None\<close> stands for \<open>ValueError\<close>.  More than 4300
      digits are refused (the interpreter's limit on conversions from \<open>str\<close>).\<close>
  "py_int s =
     (let t = py_strip s;
          neg = (t \<noteq> [] \<and> hd t = CHR ''-'');
          body = (if t \<noteq> [] \<and> (hd t = CHR ''-'' \<or> hd t = CHR ''+'') then tl t else t);
          ds = filter is_digit body
      in if int_body body \<and> length ds \<le> 4300
         then Some (if neg then - digits_value ds else digits_value ds)
         else None)"

function dec_digits :: "nat \<Rightarrow> string" where
  "dec_digits n =
     (if n < 10 then [char_of (48 + n)]
      else dec_digits (n div 10) @ [char_of (48 + n mod 10)])"
  by pat_completeness auto
termination
  by (relation "measure id") auto

definition py_str :: "int \<Rightarrow> string" where
  \<comment> \<open>\<open>str(i)\<close> of an \<open>int\<close>\<close>
  "py_str i = (if i < 0 then CHR ''-'' # dec_digits (nat (- i)) else dec_digits (nat i))"

definition center_pad :: "string \<Rightarrow> int \<Rightarrow> string" where
  \<comment> \<open>the padding of \<open>str.center\<close>: when the margin and the width are both odd the
      extra blank goes to the left\<close>
  "center_pad s width =
     (if width \<le> int (length s) then s
      else let marg = nat (width - int (length s));
               left = marg div 2 + (if odd marg \<and> odd width then 1 else 0)
           in replicate left SP @ s @ replicate (marg - left) SP)"

definition py_center :: "string \<Rightarrow> int \<Rightarrow> pyclass + string" where
  \<comment> \<open>\<open>s.center(width)\<close>: the width has to fit the 64-bit \<open>Py_ssize_t\<close>, else
      \<open>OverflowError\<close>.  Running out of memory is not modelled.\<close>
  "py_center s width =
     (if width < - (2 ^ 63) \<or> 2 ^ 63 \<le> width then Inl OverflowError
      else Inr (center_pad s width))"

definition py_get :: "(string \<times> string) list \<Rightarrow> string \<Rightarrow> string \<Rightarrow> string" where
  \<comment> \<open>\<open>d.get(k, default)\<close>; a dict is the list of its items, keys distinct\<close>
  "py_get d k dflt = (case map_of d k of None \<Rightarrow> dflt | Some v \<Rightarrow> v)"

definition py_getitem :: "(string \<times> string) list \<Rightarrow> string \<Rightarrow> pyclass + string" where
  \<comment> \<open>\<open>d[k]\<close>\<close>
  "py_getitem d k = (case map_of d k of None \<Rightarrow> Inl KeyError | Some v \<Rightarrow> Inr v)"

subsection \<open>\<open>blinking_centered_text\<close>\<close>

definition color_codes :: "(string \<times> string) list" where
  "color_codes =
     [(''black'', ''30''), (''red'', ''31''), (''green'', ''32''), (''yellow'', ''33''),
      (''blue'', ''34''), (''magenta'', ''35''), (''cyan'', ''36''), (''white'', ''37''),
      (''default'', ''39'')]"

fun bg_codes_of :: "(string \<times> string) list \<Rightarrow> pyclass + (string \<times> string) list" where
  \<comment> \<open>\<open>{name: str(int(code) + 10) for name, code in color_codes.items()}\<close>\<close>
  "bg_codes_of [] = Inr []"
| "bg_codes_of ((name, code) # items) =
     (case py_int code of
        None \<Rightarrow> Inl ValueError
      | Some n \<Rightarrow>
          (case bg_codes_of items of
             Inl e \<Rightarrow> Inl e
           | Inr rest \<Rightarrow> Inr ((name, py_str (n + 10)) # rest)))"

definition text_code_of :: "string \<Rightarrow> pyclass + string" where
  \<comment> \<open>\<open>color_codes.get(text_color.lower(), color_codes["white"])\<close>\<close>
  "text_code_of text_color =
     (case py_getitem color_codes ''white'' of
        Inl e \<Rightarrow> Inl e
      | Inr dflt \<Rightarrow> Inr (py_get color_codes (py_lower text_color) dflt))"

definition bg_code_in :: "(string \<times> string) list \<Rightarrow> string \<Rightarrow> pyclass + string" where
  \<comment> \<open>\<open>bg_codes.get(bg_color.lower(), bg_codes["red"])\<close>\<close>
  "bg_code_in bg_codes bg_color =
     (case py_getitem bg_codes ''red'' of
        Inl e \<Rightarrow> Inl e
      | Inr dflt \<Rightarrow> Inr (py_get bg_codes (py_lower bg_color) dflt))"

definition bg_code_of :: "string \<Rightarrow> pyclass + string" where
  \<comment> \<open>the background code the function selects for a colour name: the
      comprehension, then the lookup in its result\<close>
  "bg_code_of bg_color =
     (case bg_codes_of color_codes of
        Inl e \<Rightarrow> Inl e
      | Inr bg_codes \<Rightarrow> bg_code_in bg_codes bg_color)"

definition term_columns :: "string option \<Rightarrow> pyclass + int" where
  \<comment> \<open>\<open>rows, columns = os.popen('stty size', 'r').read().split()\<close> and then
      \<open>columns = int(columns)\<close>\<close>
  "term_columns t =
     (case t of
        None \<Rightarrow> Inl OSError
      | Some out \<Rightarrow>
          (case py_split out of
             [rows, columns] \<Rightarrow>
               (case py_int columns of None \<Rightarrow> Inl ValueError | Some c \<Rightarrow> Inr c)
           | _ \<Rightarrow> Inl ValueError))"

definition centered :: "string \<Rightarrow> string \<Rightarrow> string option \<Rightarrow> string \<times> string" where
  \<comment> \<open>the \<open>try\<close> block with its bare \<open>except: pass\<close>: the values of \<open>typemsg\<close> and
      \<open>message\<close> after it\<close>
  "centered typemsg message t =
     (case term_columns t of
        Inl e \<Rightarrow> (typemsg, message)
      | Inr columns \<Rightarrow>
          (case py_center typemsg columns of
             Inl e \<Rightarrow> (typemsg, message)
           | Inr typemsg' \<Rightarrow>
               (case py_center message columns of
                  Inl e \<Rightarrow> (typemsg', message)
                | Inr message' \<Rightarrow> (typemsg', message'))))"

definition ansi_start :: "int \<Rightarrow> string \<Rightarrow> string \<Rightarrow> string" where
  "ansi_start blinking text_code bg_code =
     (if blinking \<noteq> 0
      then ESC # ''[5;'' @ text_code @ '';'' @ bg_code @ ''m''
      else ESC # ''[;'' @ text_code @ '';'' @ bg_code @ ''m'')"

definition ansi_reset :: string where
  "ansi_reset = ESC # ''[0m''"

definition stdout_write :: "string \<Rightarrow> world \<Rightarrow> world" where
  \<comment> \<open>\<open>sys.stdout.write(s)\<close>\<close>
  "stdout_write s w = w\<lparr>stdout := stdout w @ [s]\<rparr>"

definition blinking_centered_text ::
  "string \<Rightarrow> string \<Rightarrow> int \<Rightarrow> string \<Rightarrow> string \<Rightarrow> world \<Rightarrow> unit outcome \<times> world" where
  "blinking_centered_text typemsg message blinking text_color bg_color w =
     (case bg_codes_of color_codes of
        Inl e \<Rightarrow> (Raised e, w)
      | Inr bg_codes \<Rightarrow>
          (case text_code_of text_color of
             Inl e \<Rightarrow> (Raised e, w)
           | Inr text_code \<Rightarrow>
               (case bg_code_in bg_codes bg_color of
                  Inl e \<Rightarrow> (Raised e, w)
                | Inr bg_code \<Rightarrow>
                    (let (typemsg', message') = centered typemsg message (tty w);
                         start = ansi_start blinking text_code bg_code
                     in (Returned (),
                         stdout_write (start @ message' @ ansi_reset @ [NL])
                           (stdout_write (start @ typemsg' @ ansi_reset @ [NL]) w))))))"

subsection \<open>The classes of the module\<close>

definition bases :: "pyclass \<Rightarrow> pyclass list" where
  \<comment> \<open>the bases of each \<open>class\<close> statement, in the order written; for the built-in
      classes, the bases Python gives them\<close>
  "bases c =
     (case c of
        BaseException \<Rightarrow> []
      | SystemExit \<Rightarrow> [BaseException]
      | Exception \<Rightarrow> [BaseException]
      | LookupError \<Rightarrow> [Exception]
      | IndexError \<Rightarrow> [LookupError]
      | KeyError \<Rightarrow> [LookupError]
      | TypeError \<Rightarrow> [Exception]
      | ValueError \<Rightarrow> [Exception]
      | ArithmeticError \<Rightarrow> [Exception]
      | OverflowError \<Rightarrow> [ArithmeticError]
      | OSError \<Rightarrow> [Exception]
      | ConnectionError \<Rightarrow> [OSError]
      | CoaInfo \<Rightarrow> [Exception]
      | CoaDBInfo \<Rightarrow> [Exception]
      | CoaWarning \<Rightarrow> [Exception]
      | CoaError \<Rightarrow> [Exception]
      | CoaNoData \<Rightarrow> [CoaError, IndexError]
      | CoaWhereError \<Rightarrow> [CoaError, IndexError]
      | CoaTypeError \<Rightarrow> [CoaError, TypeError]
      | CoaLookupError \<Rightarrow> [CoaError, LookupError]
      | CoaNotManagedError \<Rightarrow> [CoaError]
      | CoaDbError \<Rightarrow> [CoaError]
      | CoaConnectionError \<Rightarrow> [CoaError, ConnectionError])"

definition depth :: "pyclass \<Rightarrow> nat" where
  \<comment> \<open>the length of the longest chain of bases above a class\<close>
  "depth c =
     (case c of
        BaseException \<Rightarrow> 0
      | SystemExit \<Rightarrow> 1
      | Exception \<Rightarrow> 1
      | LookupError \<Rightarrow> 2
      | IndexError \<Rightarrow> 3
      | KeyError \<Rightarrow> 3
      | TypeError \<Rightarrow> 2
      | ValueError \<Rightarrow> 2
      | ArithmeticError \<Rightarrow> 2
      | OverflowError \<Rightarrow> 3
      | OSError \<Rightarrow> 2
      | ConnectionError \<Rightarrow> 3
      | CoaInfo \<Rightarrow> 2
      | CoaDBInfo \<Rightarrow> 2
      | CoaWarning \<Rightarrow> 2
      | CoaError \<Rightarrow> 2
      | CoaNoData \<Rightarrow> 4
      | CoaWhereError \<Rightarrow> 4
      | CoaTypeError \<Rightarrow> 3
      | CoaLookupError \<Rightarrow> 3
      | CoaNotManagedError \<Rightarrow> 3
      | CoaDbError \<Rightarrow> 3
      | CoaConnectionError \<Rightarrow> 4)"

function issubclass :: "pyclass \<Rightarrow> pyclass \<Rightarrow> bool" where
  \<comment> \<open>\<open>issubclass(c, d)\<close>: \<open>d\<close> is \<open>c\<close> or is reached from \<open>c\<close> through bases\<close>
  "issubclass c d = (c = d \<or> list_ex (\<lambda>b. issubclass b d) (bases c))"
  by pat_completeness auto
termination
proof (relation "measure (\<lambda>(c, d). depth c)")
  show "wf (measure (\<lambda>(c, d). depth c))"
    by simp
next
  fix c d b :: pyclass
  assume "b \<in> set (bases c)"
  then have "depth b < depth c"
    by (cases c) (auto simp: bases_def depth_def)
  then show "((b, d), (c, d)) \<in> measure (\<lambda>(c, d). depth c)"
    by simp
qed

declare issubclass.simps [simp del]

definition exc_class :: "'a outcome \<Rightarrow> pyclass option" where
  \<comment> \<open>the class of the exception in flight, if any\<close>
  "exc_class r =
     (case r of Returned _ \<Rightarrow> None | Raised c \<Rightarrow> Some c | Exited _ \<Rightarrow> Some SystemExit)"

definition except_catches :: "pyclass \<Rightarrow> 'a outcome \<Rightarrow> bool" where
  \<comment> \<open>whether the clause \<open>except h:\<close> takes the outcome of its \<open>try\<close> body\<close>
  "except_catches h r =
     (case exc_class r of None \<Rightarrow> False | Some c \<Rightarrow> issubclass c h)"

definition module_classes :: "pyclass list" where
  \<comment> \<open>the classes the module binds, in the order of their \<open>class\<close> statements\<close>
  "module_classes =
     [CoaInfo, CoaDBInfo, CoaWarning, CoaError, CoaNoData, CoaWhereError, CoaTypeError,
      CoaLookupError, CoaNotManagedError, CoaDbError, CoaConnectionError]"

definition doc_summary :: "pyclass \<Rightarrow> string option" where
  \<comment> \<open>the first line of the docstring of each class of the module\<close>
  "doc_summary c =
     (case c of
        CoaInfo \<Rightarrow> Some ''Base class for exceptions in PyCoa.''
      | CoaDBInfo \<Rightarrow> Some ''Base class for exceptions in PyCoa.''
      | CoaWarning \<Rightarrow> Some ''Base class for exceptions in PyCoa.''
      | CoaError \<Rightarrow> Some ''Base class for exceptions in PyCoa.''
      | CoaNoData \<Rightarrow>
          Some ''Exception raised when there is no data to plot or to manage (invalid cut)''
      | CoaWhereError \<Rightarrow> Some ''Exception raised for location errors.''
      | CoaTypeError \<Rightarrow> Some ''Exception raised for type mismatch errors.''
      | CoaLookupError \<Rightarrow> Some ''Exception raised for type lookup errors.''
      | CoaNotManagedError \<Rightarrow>
          Some ''Exception raised when the error is unknown and not managed.''
      | CoaDbError \<Rightarrow> Some ''Exception raised for database errors.''
      | CoaConnectionError \<Rightarrow> Some ''Exception raised for connection errors.''
      | _ \<Rightarrow> None)"

subsection \<open>The \<open>__init__\<close> methods\<close>

definition builtin_new :: "string \<Rightarrow> world \<Rightarrow> unit outcome \<times> world" where
  \<comment> \<open>\<open>Exception(message)\<close>, \<open>IndexError(message)\<close> and the like: an exception
      object is built and dropped\<close>
  "builtin_new message w = (Returned (), w)"

definition sys_exit :: "int \<Rightarrow> world \<Rightarrow> unit outcome \<times> world" where
  "sys_exit code w = (Exited code, w)"

definition CoaInfo_init :: "string \<Rightarrow> world \<Rightarrow> unit outcome \<times> world" where
  "CoaInfo_init message w =
     then_do (blinking_centered_text ''PYCOA Info !'' message 0 ''white'' ''magenta'' w)
       (builtin_new message)"

definition CoaDBInfo_init :: "string \<Rightarrow> world \<Rightarrow> unit outcome \<times> world" where
  "CoaDBInfo_init message w =
     then_do (blinking_centered_text ''PYCOA Info !'' message 0 ''white'' ''blue'' w)
       (builtin_new message)"

definition CoaWarning_init :: "string \<Rightarrow> world \<Rightarrow> unit outcome \<times> world" where
  "CoaWarning_init message w =
     then_do (blinking_centered_text ''PYCOA Warning !'' message 0 ''white'' ''magenta'' w)
       (builtin_new message)"

definition CoaError_init :: "string \<Rightarrow> world \<Rightarrow> unit outcome \<times> world" where
  "CoaError_init message w =
     then_do (blinking_centered_text ''PYCOA Error !'' message 1 ''white'' ''red'' w)
       (sys_exit 0)"

definition CoaNoData_init :: "string \<Rightarrow> world \<Rightarrow> unit outcome \<times> world" where
  \<comment> \<open>the banner, then \<open>IndexError(message)\<close>, then \<open>CoaError(message)\<close>\<close>
  "CoaNoData_init message w =
     then_do
       (then_do (blinking_centered_text ''PYCOA Error !'' message 1 ''white'' ''red'' w)
          (builtin_new message))
       (CoaError_init message)"

definition CoaWhereError_init :: "string \<Rightarrow> world \<Rightarrow> unit outcome \<times> world" where
  \<comment> \<open>the banner, then \<open>IndexError(message)\<close>, then \<open>CoaError(message)\<close>\<close>
  "CoaWhereError_init message w =
     then_do
       (then_do (blinking_centered_text ''PYCOA Error !'' message 1 ''white'' ''red'' w)
          (builtin_new message))
       (CoaError_init message)"

definition CoaTypeError_init :: "string \<Rightarrow> world \<Rightarrow> unit outcome \<times> world" where
  \<comment> \<open>the banner, then \<open>TypeError(message)\<close>, then \<open>CoaError(message)\<close>\<close>
  "CoaTypeError_init message w =
     then_do
       (then_do (blinking_centered_text ''PYCOA Error !'' message 1 ''white'' ''red'' w)
          (builtin_new message))
       (CoaError_init message)"

definition CoaLookupError_init :: "string \<Rightarrow> world \<Rightarrow> unit outcome \<times> world" where
  \<comment> \<open>the banner, then \<open>LookupError(message)\<close>, then \<open>CoaError(message)\<close>\<close>
  "CoaLookupError_init message w =
     then_do
       (then_do (blinking_centered_text ''PYCOA Error !'' message 1 ''white'' ''red'' w)
          (builtin_new message))
       (CoaError_init message)"

definition CoaNotManagedError_init :: "string \<Rightarrow> world \<Rightarrow> unit outcome \<times> world" where
  \<comment> \<open>the banner, then \<open>CoaError(message)\<close>\<close>
  "CoaNotManagedError_init message w =
     then_do (blinking_centered_text ''PYCOA Error !'' message 1 ''white'' ''red'' w)
       (CoaError_init message)"

definition CoaDbError_init :: "string \<Rightarrow> world \<Rightarrow> unit outcome \<times> world" where
  \<comment> \<open>the banner, then \<open>CoaError(message)\<close>\<close>
  "CoaDbError_init message w =
     then_do (blinking_centered_text ''PYCOA Error !'' message 1 ''white'' ''red'' w)
       (CoaError_init message)"

definition CoaConnectionError_init :: "string \<Rightarrow> world \<Rightarrow> unit outcome \<times> world" where
  \<comment> \<open>the banner, then \<open>ConnectionError(message)\<close>, then \<open>CoaError(message)\<close>\<close>
  "CoaConnectionError_init message w =
     then_do
       (then_do (blinking_centered_text ''PYCOA Error !'' message 1 ''white'' ''red'' w)
          (builtin_new message))
       (CoaError_init message)"

definition new :: "pyclass \<Rightarrow> string \<Rightarrow> world \<Rightarrow> unit outcome \<times> world" where
  \<comment> \<open>the call \<open>c(message)\<close>: the object is created and the \<open>__init__\<close> of its
      class runs\<close>
  "new c message w =
     (case c of
        CoaInfo \<Rightarrow> CoaInfo_init message w
      | CoaDBInfo \<Rightarrow> CoaDBInfo_init message w
      | CoaWarning \<Rightarrow> CoaWarning_init message w
      | CoaError \<Rightarrow> CoaError_init message w
      | CoaNoData \<Rightarrow> CoaNoData_init message w
      | CoaWhereError \<Rightarrow> CoaWhereError_init message w
      | CoaTypeError \<Rightarrow> CoaTypeError_init message w
      | CoaLookupError \<Rightarrow> CoaLookupError_init message w
      | CoaNotManagedError \<Rightarrow> CoaNotManagedError_init message w
      | CoaDbError \<Rightarrow> CoaDbError_init message w
      | CoaConnectionError \<Rightarrow> CoaConnectionError_init message w
      | _ \<Rightarrow> builtin_new message w)"


definition banner :: "string \<Rightarrow> string \<Rightarrow> int \<Rightarrow> string \<Rightarrow> string \<Rightarrow> string option \<Rightarrow> string list" where
  \<comment> \<open>the two strings of a banner: the start sequence, the text as the \<open>try\<close>
      block left it, the reset sequence and a line feed\<close>
  "banner typemsg message blinking text_code bg_code t =
     [ansi_start blinking text_code bg_code @ fst (centered typemsg message t)
        @ ansi_reset @ [NL],
      ansi_start blinking text_code bg_code @ snd (centered typemsg message t)
        @ ansi_reset @ [NL]]"

section \<open>Geographic reference data\<close>

text \<open>
  The module \<open>pyvoa/geo.py\<close> is not among the sources: only the notebook
  \<open>examples/notebooks/GeoByExamples.ipynb\<close> calls it.  Its data and the two lookups
  the specification describes are modelled from the specification's words.
\<close>

text \<open>
  Modelled from the spec: the canonical country record, "the single authoritative
  identifier set (name, ISO2, ISO3, numeric code) a dataset name resolves to", with the
  name variants that the reference table maps to it.
\<close>

record country =
  c_name :: string
  c_iso2 :: string
  c_iso3 :: string
  c_num :: string
  c_variants :: "string list"

text \<open>
  Modelled from the spec: the two read-only lookup structures, "a geographic reference
  table mapping country identifiers to a canonical record" and "region membership lists
  (named region to set of member country codes)".
\<close>

record geo =
  countries :: "country list"
  regions :: "(string \<times> string list) list"


text \<open>
  Modelled from the spec: the identifiers of a country, "name variants, ISO2/ISO3 codes,
  numeric codes".
\<close>

definition identifiers :: "country \<Rightarrow> string list" where
  "identifiers c = c_name c # c_iso2 c # c_iso3 c # c_num c # c_variants c"

text \<open>
  Modelled from the spec: the keys under which the index holds a country, its
  identifiers "regardless of input casing".
\<close>

definition keys :: "country \<Rightarrow> string list" where
  "keys c = remdups (map py_lower (identifiers c))"

text \<open>
  Modelled from the spec: the reference table is a mapping from identifiers to records,
  so no key belongs to two countries of the table.
\<close>

definition wf_geo :: "geo \<Rightarrow> bool" where
  "wf_geo g = distinct (concat (map keys (countries g)))"

text \<open>
  Modelled from the spec: resolution, "a single-pass lookup/normalization routine over an
  in-memory table": the input is normalised and looked up among the keys.
\<close>

definition resolve :: "geo \<Rightarrow> string \<Rightarrow> country option" where
  "resolve g s = find (\<lambda>c. py_lower s \<in> set (keys c)) (countries g)"



text \<open>
  Modelled from the spec: region expansion, "expand a region to its member countries",
  which "returns a deterministic, deduplicated set of member country codes".  The
  reference data is passed in and handed back, as state that a call could change.  What
  the code does for a name that is no region is not stated: the result is \<open>None\<close> there.
\<close>

definition get_countries_from_region :: "geo \<Rightarrow> string \<Rightarrow> string list option \<times> geo" where
  "get_countries_from_region g r =
     (case map_of (regions g) r of
        None \<Rightarrow> (None, g)
      | Some members \<Rightarrow> (Some (remdups members), g))"

text \<open>
  Example reference data for the concrete instances below, with names the notebook uses:
  three countries, and one region whose membership list repeats a member.
\<close>

definition example_geo :: geo where
  "example_geo =
     \<lparr>countries =
        [\<lparr>c_name = ''France'', c_iso2 = ''FR'', c_iso3 = ''FRA'', c_num = ''250'',
          c_variants = [''French Republic'']\<rparr>,
         \<lparr>c_name = ''Spain'', c_iso2 = ''ES'', c_iso3 = ''ESP'', c_num = ''724'',
          c_variants = [''Kingdom of Spain'', ''Espana'']\<rparr>,
         \<lparr>c_name = ''Italy'', c_iso2 = ''IT'', c_iso3 = ''ITA'', c_num = ''380'',
          c_variants = []\<rparr>],
      regions = [(''European Union'', [''FRA'', ''ESP'', ''ITA'', ''FRA''])]\<rparr>"

section \<open>Properties of the error module\<close>

subsection \<open>Auxiliary facts\<close>

lemma bg_codes_color_codes:
  "bg_codes_of color_codes =
     Inr [(''black'', ''40''), (''red'', ''41''), (''green'', ''42''), (''yellow'', ''43''),
          (''blue'', ''44''), (''magenta'', ''45''), (''cyan'', ''46''), (''white'', ''47''),
          (''default'', ''49'')]"
  by code_simp





lemma text_code_white: "text_code_of ''white'' = Inr ''37''"
  by code_simp

lemma bg_code_red: "bg_code_of ''red'' = Inr ''41''"
  by code_simp

lemma bg_code_blue: "bg_code_of ''blue'' = Inr ''44''"
  by code_simp

lemma bg_code_magenta: "bg_code_of ''magenta'' = Inr ''45''"
  by code_simp

lemma blinking_centered_text_banner:
  assumes "text_code_of text_color = Inr t" and "bg_code_of bg_color = Inr b"
  shows "blinking_centered_text typemsg message blinking text_color bg_color w =
           (Returned (), w\<lparr>stdout := stdout w @ banner typemsg message blinking t b (tty w)\<rparr>)"
proof -
  have "bg_code_in
      [(''black'', ''40''), (''red'', ''41''), (''green'', ''42''), (''yellow'', ''43''),
       (''blue'', ''44''), (''magenta'', ''45''), (''cyan'', ''46''), (''white'', ''47''),
       (''default'', ''49'')] bg_color = Inr b"
    using assms(2) by (simp add: bg_code_of_def bg_codes_color_codes)
  with assms(1) show ?thesis
    by (simp add: blinking_centered_text_def bg_codes_color_codes banner_def stdout_write_def
        case_prod_unfold Let_def)
qed



lemma length_center_pad: "int (length (center_pad s width)) = max (int (length s)) width"
  by (auto simp: center_pad_def Let_def)

lemma center_pad_shape:
  assumes "int (length s) < width"
  shows "\<exists>l r. center_pad s width = replicate l SP @ s @ replicate r SP
            \<and> int (l + r) = width - int (length s) \<and> (l = r \<or> l = Suc r \<or> r = Suc l)"
proof -
  define marg where "marg = nat (width - int (length s))"
  define left where "left = marg div 2 + (if odd marg \<and> odd width then 1 else 0)"
  have eq: "center_pad s width = replicate left SP @ s @ replicate (marg - left) SP"
    using assms by (simp add: center_pad_def Let_def marg_def left_def)
  have le: "left \<le> marg"
    by (cases "odd marg") (auto simp: left_def elim: oddE)
  have sum: "int (left + (marg - left)) = width - int (length s)"
    using le assms by (simp add: marg_def)
  have bal: "left = marg - left \<or> left = Suc (marg - left) \<or> marg - left = Suc left"
    by (cases "odd marg") (auto simp: left_def elim: oddE evenE)
  from eq sum bal show ?thesis
    by blast
qed

lemma CoaError_init_exits:
  "CoaError_init message w =
     (Exited 0,
      w\<lparr>stdout := stdout w @ banner ''PYCOA Error !'' message 1 ''37'' ''41'' (tty w)\<rparr>)"
  by (simp add: CoaError_init_def then_do_def sys_exit_def
      blinking_centered_text_banner [OF text_code_white bg_code_red])




lemma issubclass_CoaError:
  "issubclass c CoaError =
     (c \<in> set [CoaError, CoaNoData, CoaWhereError, CoaTypeError, CoaLookupError,
                CoaNotManagedError, CoaDbError, CoaConnectionError])"
  by (cases c; hypsubst; code_simp)


subsection \<open>Informational, warning and fatal constructors\<close>

text \<open>
  Claim C1.  For every message, constructing \<open>CoaInfo\<close>, \<open>CoaDBInfo\<close> or
  \<open>CoaWarning\<close> writes the banner of the class (white on magenta, white on blue, white
  on magenta, not blinking) and returns to the caller, whereas constructing \<open>CoaError\<close>
  writes its banner (white on red, blinking) and then leaves through \<open>sys.exit(0)\<close>.
\<close>

theorem info_warning_return_error_exits:
  "new CoaInfo message w =
     (Returned (),
      w\<lparr>stdout := stdout w @ banner ''PYCOA Info !'' message 0 ''37'' ''45'' (tty w)\<rparr>)
   \<and> new CoaDBInfo message w =
     (Returned (),
      w\<lparr>stdout := stdout w @ banner ''PYCOA Info !'' message 0 ''37'' ''44'' (tty w)\<rparr>)
   \<and> new CoaWarning message w =
     (Returned (),
      w\<lparr>stdout := stdout w @ banner ''PYCOA Warning !'' message 0 ''37'' ''45'' (tty w)\<rparr>)
   \<and> new CoaError message w =
     (Exited 0,
      w\<lparr>stdout := stdout w @ banner ''PYCOA Error !'' message 1 ''37'' ''41'' (tty w)\<rparr>)"
proof (intro conjI)
  show "new CoaInfo message w =
     (Returned (),
      w\<lparr>stdout := stdout w @ banner ''PYCOA Info !'' message 0 ''37'' ''45'' (tty w)\<rparr>)"
    by (simp add: new_def CoaInfo_init_def then_do_def builtin_new_def
        blinking_centered_text_banner [OF text_code_white bg_code_magenta])
  show "new CoaDBInfo message w =
     (Returned (),
      w\<lparr>stdout := stdout w @ banner ''PYCOA Info !'' message 0 ''37'' ''44'' (tty w)\<rparr>)"
    by (simp add: new_def CoaDBInfo_init_def then_do_def builtin_new_def
        blinking_centered_text_banner [OF text_code_white bg_code_blue])
  show "new CoaWarning message w =
     (Returned (),
      w\<lparr>stdout := stdout w @ banner ''PYCOA Warning !'' message 0 ''37'' ''45'' (tty w)\<rparr>)"
    by (simp add: new_def CoaWarning_init_def then_do_def builtin_new_def
        blinking_centered_text_banner [OF text_code_white bg_code_magenta])
  show "new CoaError message w =
     (Exited 0,
      w\<lparr>stdout := stdout w @ banner ''PYCOA Error !'' message 1 ''37'' ''41'' (tty w)\<rparr>)"
    by (simp add: new_def CoaError_init_exits)
qed

subsection \<open>The class hierarchy\<close>

text \<open>
  Claim C3.  The module defines one class for each documented kind of error, the five
  classes are pairwise different, each is an exception class below \<open>CoaError\<close>, and the
  docstring of each names its kind: location errors, database errors, lookup errors,
  no data (invalid cut), and unknown errors that are not managed.
\<close>

theorem typed_error_classes:
  "distinct [CoaWhereError, CoaDbError, CoaLookupError, CoaNoData, CoaNotManagedError]
   \<and> list_all (\<lambda>c. c \<in> set module_classes \<and> issubclass c CoaError \<and> issubclass c Exception)
        [CoaWhereError, CoaDbError, CoaLookupError, CoaNoData, CoaNotManagedError]
   \<and> doc_summary CoaWhereError = Some ''Exception raised for location errors.''
   \<and> doc_summary CoaDbError = Some ''Exception raised for database errors.''
   \<and> doc_summary CoaLookupError = Some ''Exception raised for type lookup errors.''
   \<and> doc_summary CoaNoData =
        Some ''Exception raised when there is no data to plot or to manage (invalid cut)''
   \<and> doc_summary CoaNotManagedError =
        Some ''Exception raised when the error is unknown and not managed.''"
proof (intro conjI)
  show "distinct [CoaWhereError, CoaDbError, CoaLookupError, CoaNoData, CoaNotManagedError]"
    by simp
  show "list_all (\<lambda>c. c \<in> set module_classes \<and> issubclass c CoaError \<and> issubclass c Exception)
        [CoaWhereError, CoaDbError, CoaLookupError, CoaNoData, CoaNotManagedError]"
    by code_simp
qed (simp_all add: doc_summary_def)

text \<open>
  Claim C8.  \<open>CoaInfo\<close>, \<open>CoaDBInfo\<close> and \<open>CoaWarning\<close> have \<open>Exception\<close> as their
  only base, and a clause \<open>except CoaError:\<close> takes a raised exception of class \<open>c\<close>
  exactly when \<open>c\<close> is \<open>CoaError\<close> or one of its seven subclasses; so it takes none of
  the three informational and warning classes.
\<close>

theorem except_CoaError_catches:
  "bases CoaInfo = [Exception] \<and> bases CoaDBInfo = [Exception] \<and> bases CoaWarning = [Exception]
   \<and> \<not> issubclass CoaInfo CoaError \<and> \<not> issubclass CoaDBInfo CoaError
   \<and> \<not> issubclass CoaWarning CoaError
   \<and> except_catches CoaError (Raised c :: unit outcome) =
       (c \<in> set [CoaError, CoaNoData, CoaWhereError, CoaTypeError, CoaLookupError,
                  CoaNotManagedError, CoaDbError, CoaConnectionError])"
  by (simp add: bases_def except_catches_def exc_class_def issubclass_CoaError)

subsection \<open>The colour tables\<close>

lemma color_codes_bg_all:
  "list_all
     (\<lambda>(name, code). text_code_of name = Inr code \<and>
        (case py_int code of
           None \<Rightarrow> False
         | Some n \<Rightarrow> bg_code_of name = Inr (py_str (n + 10))))
     color_codes"
  by code_simp

text \<open>
  Claim C10.  For every colour \<open>name\<close> of the table with its code \<open>code\<close> (black 30,
  red 31, green 32, yellow 33, blue 34, magenta 35, cyan 36, white 37, default 39), the
  text code selected for \<open>name\<close> is \<open>code\<close> and the background code selected for
  \<open>name\<close> is \<open>str(int(code) + 10)\<close>.
\<close>

theorem bg_code_is_code_plus_10:
  assumes "(name, code) \<in> set color_codes"
  shows "map snd color_codes =
           [''30'', ''31'', ''32'', ''33'', ''34'', ''35'', ''36'', ''37'', ''39'']
         \<and> text_code_of name = Inr code
         \<and> (\<exists>n. py_int code = Some n \<and> bg_code_of name = Inr (py_str (n + 10)))"
proof -
  from color_codes_bg_all assms
  have "text_code_of name = Inr code \<and>
        (case py_int code of
           None \<Rightarrow> False
         | Some n \<Rightarrow> bg_code_of name = Inr (py_str (n + 10)))"
    by (auto simp: list_all_iff)
  moreover have "map snd color_codes =
           [''30'', ''31'', ''32'', ''33'', ''34'', ''35'', ''36'', ''37'', ''39'']"
    by (simp add: color_codes_def)
  ultimately show ?thesis
    by (auto split: option.splits)
qed

theorem bg_code_is_code_plus_10_witness:
  "(''magenta'', ''35'') \<in> set color_codes
   \<and> text_code_of ''magenta'' = Inr ''35''
   \<and> py_int ''35'' = Some 35
   \<and> bg_code_of ''magenta'' = Inr (py_str (35 + 10))
   \<and> py_str (35 + 10) = ''45''"
proof -
  have mem: "(''magenta'', ''35'') \<in> set color_codes"
    by (simp add: color_codes_def)
  have int: "py_int ''35'' = Some 35"
    by code_simp
  have str: "py_str (35 + 10) = ''45''"
    by code_simp
  from bg_code_is_code_plus_10 [OF mem] int str mem show ?thesis
    by auto
qed

subsection \<open>What \<open>blinking_centered_text\<close> writes\<close>






subsection \<open>Raising the typed errors\<close>




section \<open>Properties of the geographic lookups\<close>

lemma find_by_key:
  assumes "distinct (concat (map keys cs))" and "c \<in> set cs" and "k \<in> set (keys c)"
  shows "find (\<lambda>c'. k \<in> set (keys c')) cs = Some c"
  using assms
proof (induction cs)
  case Nil
  then show ?case by simp
next
  case (Cons x xs)
  show ?case
  proof (cases "k \<in> set (keys x)")
    case False
    with Cons.prems have "c \<in> set xs"
      by auto
    with Cons False show ?thesis
      by simp
  next
    case True
    have "c = x"
    proof (rule ccontr)
      assume "c \<noteq> x"
      with Cons.prems have "c \<in> set xs"
        by auto
      with Cons.prems(3) have "k \<in> set (concat (map keys xs))"
        by auto
      with True Cons.prems(1) show False
        by auto
    qed
    with True show ?thesis
      by simp
  qed
qed

lemma lower_in_keys: "v \<in> set (identifiers c) \<Longrightarrow> py_lower v \<in> set (keys c)"
  by (simp add: keys_def)

text \<open>
  Claim C7.  In a reference table where no key belongs to two countries, every identifier
  of a country of the table (its name, a code or a name variant), in any casing, resolves
  to that country's record, the one its canonical name resolves to.
\<close>

theorem resolve_any_casing:
  assumes "wf_geo g" and "c \<in> set (countries g)" and "v \<in> set (identifiers c)"
    and "py_lower s = py_lower v"
  shows "resolve g s = Some c \<and> resolve g s = resolve g (c_name c)"
proof -
  have dist: "distinct (concat (map keys (countries g)))"
    using assms(1) by (simp add: wf_geo_def)
  have "py_lower s \<in> set (keys c)"
    using assms(3,4) by (simp add: lower_in_keys)
  then have s: "resolve g s = Some c"
    unfolding resolve_def by (rule find_by_key [OF dist assms(2)])
  have "c_name c \<in> set (identifiers c)"
    by (simp add: identifiers_def)
  then have "py_lower (c_name c) \<in> set (keys c)"
    by (rule lower_in_keys)
  then have "resolve g (c_name c) = Some c"
    unfolding resolve_def by (rule find_by_key [OF dist assms(2)])
  with s show ?thesis
    by simp
qed

theorem resolve_any_casing_witness:
  "wf_geo example_geo
   \<and> \<lparr>c_name = ''Spain'', c_iso2 = ''ES'', c_iso3 = ''ESP'', c_num = ''724'',
       c_variants = [''Kingdom of Spain'', ''Espana'']\<rparr> \<in> set (countries example_geo)
   \<and> ''ESP'' \<in> set (identifiers \<lparr>c_name = ''Spain'', c_iso2 = ''ES'', c_iso3 = ''ESP'',
       c_num = ''724'', c_variants = [''Kingdom of Spain'', ''Espana'']\<rparr>)
   \<and> py_lower ''eSp'' = py_lower ''ESP''
   \<and> resolve example_geo ''eSp'' =
       Some \<lparr>c_name = ''Spain'', c_iso2 = ''ES'', c_iso3 = ''ESP'', c_num = ''724'',
         c_variants = [''Kingdom of Spain'', ''Espana'']\<rparr>
   \<and> resolve example_geo ''eSp'' = resolve example_geo ''Spain''"
proof -
  have wf: "wf_geo example_geo"
    by code_simp
  have mem: "\<lparr>c_name = ''Spain'', c_iso2 = ''ES'', c_iso3 = ''ESP'', c_num = ''724'',
       c_variants = [''Kingdom of Spain'', ''Espana'']\<rparr> \<in> set (countries example_geo)"
    by (simp add: example_geo_def)
  have ident: "''ESP'' \<in> set (identifiers \<lparr>c_name = ''Spain'', c_iso2 = ''ES'',
       c_iso3 = ''ESP'', c_num = ''724'', c_variants = [''Kingdom of Spain'', ''Espana'']\<rparr>)"
    by (simp add: identifiers_def)
  have low: "py_lower ''eSp'' = py_lower ''ESP''"
    by code_simp
  note inst = resolve_any_casing [OF wf mem ident low]
  have same: "resolve example_geo ''eSp'' = resolve example_geo ''Spain''"
    using conjunct2 [OF inst] by simp
  from conjunct1 [OF inst] same wf mem ident low show ?thesis
    by (intro conjI)
qed

text \<open>
  Claim C6.  For a known region, the expansion returns its member country codes without
  repetition, it leaves the reference data as it was, and a second call on the data the
  first call handed back returns the same list.
\<close>

theorem region_expansion_deduplicated:
  assumes "map_of (regions g) r = Some members"
  shows "\<exists>cs. get_countries_from_region g r = (Some cs, g)
           \<and> distinct cs \<and> set cs = set members
           \<and> get_countries_from_region (snd (get_countries_from_region g r)) r = (Some cs, g)"
  using assms by (simp add: get_countries_from_region_def)

theorem region_expansion_deduplicated_witness:
  "map_of (regions example_geo) ''European Union'' = Some [''FRA'', ''ESP'', ''ITA'', ''FRA'']
   \<and> get_countries_from_region example_geo ''European Union''
       = (Some [''ESP'', ''ITA'', ''FRA''], example_geo)
   \<and> (\<exists>cs. get_countries_from_region example_geo ''European Union'' = (Some cs, example_geo)
           \<and> distinct cs \<and> set cs = set [''FRA'', ''ESP'', ''ITA'', ''FRA'']
           \<and> get_countries_from_region
                (snd (get_countries_from_region example_geo ''European Union''))
                ''European Union'' = (Some cs, example_geo))"
proof -
  have known: "map_of (regions example_geo) ''European Union''
      = Some [''FRA'', ''ESP'', ''ITA'', ''FRA'']"
    by (simp add: example_geo_def)
  have val: "get_countries_from_region example_geo ''European Union''
       = (Some [''ESP'', ''ITA'', ''FRA''], example_geo)"
    by (simp add: get_countries_from_region_def known)
  from region_expansion_deduplicated [OF known] known val show ?thesis
    by blast
qed




end
